theory Spec2Isabelle
  imports Main
begin

section \<open>The request protocol of package logical (request.go)\<close>

subsection \<open>Operation\<close>

text \<open>
  The source declares \<^verbatim>\<open>type Operation string\<close>: an Operation is a string, and every
  string converts to one. The enumeration is the const block that follows it. (Only
  \<^verbatim>\<open>ReadOperation\<close> and \<^verbatim>\<open>RevokeOperation\<close> carry the type in the block; the other six
  are untyped string constants that become Operations where they are assigned to the
  \<^verbatim>\<open>Operation\<close> field. Their string values are what is modelled.)
\<close>

type_synonym Operation = string

definition ReadOperation :: Operation where
  "ReadOperation = ''read''"

definition WriteOperation :: Operation where
  "WriteOperation = ''write''"

definition DeleteOperation :: Operation where
  "DeleteOperation = ''delete''"

definition ListOperation :: Operation where
  "ListOperation = ''list''"

definition HelpOperation :: Operation where
  "HelpOperation = ''help''"

definition RevokeOperation :: Operation where
  "RevokeOperation = ''revoke''"

definition RenewOperation :: Operation where
  "RenewOperation = ''renew''"

definition RollbackOperation :: Operation where
  "RollbackOperation = ''rollback''"

text \<open>The const block, in the order of its declarations.\<close>

definition operations :: "Operation list" where
  "operations =
     [ReadOperation, WriteOperation, DeleteOperation, ListOperation, HelpOperation,
      RevokeOperation, RenewOperation, RollbackOperation]"

subsection \<open>Values of type interface{}\<close>

text \<open>
  A value of Go's empty interface is either the nil interface or a value together with
  its dynamic type. The accessors only ever ask whether the dynamic type is \<^verbatim>\<open>string\<close>,
  so the model has the nil interface, a value of dynamic type \<^verbatim>\<open>string\<close>, and a value
  of any other dynamic type (a number, a boolean, a nested map, ...), whose carrier is
  the parameter \<open>'v\<close>.
\<close>

datatype 'v iface = NilValue | StringValue string | OtherValue 'v

text \<open>
  The comma-ok type assertion \<^verbatim>\<open>s, ok := raw.(string)\<close>: it yields the string and true
  when the dynamic type is \<^verbatim>\<open>string\<close>, and the zero value of \<^verbatim>\<open>string\<close> and false
  otherwise, the nil interface included. This form of the assertion does not panic.
\<close>

fun assert_string :: "'v iface \<Rightarrow> string \<times> bool" where
  "assert_string (StringValue s) = (s, True)"
| "assert_string NilValue = ('''', False)"
| "assert_string (OtherValue v) = ('''', False)"

text \<open>
  The index expression \<^verbatim>\<open>m[key]\<close> on a map with values of type interface{}: the
  stored value, or the zero value of the element type (the nil interface) when the key
  has no entry.
\<close>

definition map_index :: "(string \<rightharpoonup> 'v iface) \<Rightarrow> string \<Rightarrow> 'v iface" where
  "map_index m key = (case m key of None \<Rightarrow> NilValue | Some v \<Rightarrow> v)"

subsection \<open>Request\<close>

text \<open>
  The struct \<^verbatim>\<open>Request\<close>. A map, an interface and a pointer can each be nil, so the
  fields \<^verbatim>\<open>Data\<close>, \<^verbatim>\<open>Storage\<close> and \<^verbatim>\<open>Secret\<close> are options with \<open>None\<close> for nil.
  A map is modelled by its contents. The types \<^verbatim>\<open>Storage\<close> and \<^verbatim>\<open>Secret\<close> are declared
  in other files of the package; they are the parameters \<open>'sto\<close> and \<open>'sec\<close>.
\<close>

record ('v, 'sto, 'sec) Request =
  Operation :: Operation
  Path :: string
  Data :: "(string \<rightharpoonup> 'v iface) option"
  Storage :: "'sto option"
  Secret :: "'sec option"

text \<open>
  A \<^verbatim>\<open>*Request\<close> is nil or points to a struct: \<open>None\<close> is the nil pointer, \<open>Some r\<close>
  a pointer to a struct whose fields are \<open>r\<close>. Selecting a field through a nil pointer
  is a run-time panic.
\<close>

type_synonym 'a ptr = "'a option"

datatype panic = NilPointerDereference

definition field :: "('a \<Rightarrow> 'b) \<Rightarrow> 'a ptr \<Rightarrow> panic + 'b" where
  "field f r = (case r of None \<Rightarrow> Inl NilPointerDereference | Some req \<Rightarrow> Inr (f req))"

subsection \<open>Accessors\<close>

text \<open>
  \<^verbatim>\<open>Get\<close> and \<^verbatim>\<open>GetString\<close> are methods on \<^verbatim>\<open>*Request\<close>. A call either panics or
  returns a value and leaves the struct behind the receiver in some state, so the result
  of a call is \<open>Inl\<close> of the panic or \<open>Inr\<close> of the returned value paired with the
  receiver's struct after the call. Neither body assigns to a field.
\<close>

definition Get ::
  "('v, 'sto, 'sec) Request ptr \<Rightarrow> string \<Rightarrow> panic + ('v iface \<times> ('v, 'sto, 'sec) Request)"
where
  "Get r key =
     (case r of
        None \<Rightarrow> Inl NilPointerDereference
      | Some req \<Rightarrow>
          (case Data req of
             None \<Rightarrow> Inr (NilValue, req)
           | Some m \<Rightarrow> Inr (map_index m key, req)))"

definition GetString ::
  "('v, 'sto, 'sec) Request ptr \<Rightarrow> string \<Rightarrow> panic + (string \<times> ('v, 'sto, 'sec) Request)"
where
  "GetString r key =
     (case Get r key of
        Inl e \<Rightarrow> Inl e
      | Inr (raw, req) \<Rightarrow> (case assert_string raw of (s, ok) \<Rightarrow> Inr (s, req)))"

subsection \<open>Constructors\<close>

text \<open>
  Each constructor returns the address of a composite literal, which is never nil. A
  field the literal does not mention has its zero value: nil for \<^verbatim>\<open>Storage\<close>, and for
  \<^verbatim>\<open>Data\<close> and \<^verbatim>\<open>Secret\<close> in \<^verbatim>\<open>RollbackRequest\<close>.
\<close>

definition RenewRequest ::
  "string \<Rightarrow> 'sec option \<Rightarrow> (string \<rightharpoonup> 'v iface) option \<Rightarrow> ('v, 'sto, 'sec) Request ptr"
where
  "RenewRequest path secret data =
     Some \<lparr>Operation = RenewOperation, Path = path, Data = data, Storage = None,
           Secret = secret\<rparr>"

definition RevokeRequest ::
  "string \<Rightarrow> 'sec option \<Rightarrow> (string \<rightharpoonup> 'v iface) option \<Rightarrow> ('v, 'sto, 'sec) Request ptr"
where
  "RevokeRequest path secret data =
     Some \<lparr>Operation = RevokeOperation, Path = path, Data = data, Storage = None,
           Secret = secret\<rparr>"

definition RollbackRequest :: "string \<Rightarrow> ('v, 'sto, 'sec) Request ptr" where
  "RollbackRequest path =
     Some \<lparr>Operation = RollbackOperation, Path = path, Data = None, Storage = None,
           Secret = None\<rparr>"


subsection \<open>Vocabulary of the properties\<close>

text \<open>
  The requests that the three constructors can return, over all arguments; the second
  predicate leaves out the calls of \<^verbatim>\<open>RenewRequest\<close> and \<^verbatim>\<open>RevokeRequest\<close> whose
  secret argument is nil.
\<close>

inductive built :: "('v, 'sto, 'sec) Request ptr \<Rightarrow> bool" where
  built_renew: "built (RenewRequest p s d)"
| built_revoke: "built (RevokeRequest p s d)"
| built_rollback: "built (RollbackRequest p)"

inductive built_with_secret :: "('v, 'sto, 'sec) Request ptr \<Rightarrow> bool" where
  renew_with_secret: "built_with_secret (RenewRequest p (Some x) d)"
| revoke_with_secret: "built_with_secret (RevokeRequest p (Some x) d)"
| rollback_without: "built_with_secret (RollbackRequest p)"

text \<open>The request behind the pointer has a non-nil \<^verbatim>\<open>Secret\<close>.\<close>

definition has_secret :: "('v, 'sto, 'sec) Request ptr \<Rightarrow> bool" where
  "has_secret r = (case r of None \<Rightarrow> False | Some req \<Rightarrow> Secret req \<noteq> None)"

text \<open>The request behind the pointer has the operation renew or revoke.\<close>

definition renew_or_revoke :: "('v, 'sto, 'sec) Request ptr \<Rightarrow> bool" where
  "renew_or_revoke r =
     (field Operation r = Inr RenewOperation \<or> field Operation r = Inr RevokeOperation)"

text \<open>What a call returned, without the receiver's state.\<close>

definition returned :: "panic + ('a \<times> 's) \<Rightarrow> panic + 'a" where
  "returned c = (case c of Inl e \<Rightarrow> Inl e | Inr (v, s) \<Rightarrow> Inr v)"

text \<open>
  Two calls of the same accessor in sequence on one receiver and key: the second call
  runs on the struct as the first one left it, and the result collects both returned
  values and the final struct.
\<close>

definition twice ::
  "('r ptr \<Rightarrow> string \<Rightarrow> panic + ('a \<times> 'r)) \<Rightarrow> 'r ptr \<Rightarrow> string \<Rightarrow> panic + (('a \<times> 'a) \<times> 'r)"
where
  "twice f r key =
     (case f r key of
        Inl e \<Rightarrow> Inl e
      | Inr (v1, r1) \<Rightarrow>
          (case f (Some r1) key of
             Inl e \<Rightarrow> Inl e
           | Inr (v2, r2) \<Rightarrow> Inr ((v1, v2), r2)))"

text \<open>The situations of a key that \<^verbatim>\<open>GetString\<close> is asked for.\<close>

definition key_absent :: "('v, 'sto, 'sec) Request \<Rightarrow> string \<Rightarrow> bool" where
  "key_absent req key = (case Data req of None \<Rightarrow> True | Some m \<Rightarrow> m key = None)"

definition key_holds :: "('v, 'sto, 'sec) Request \<Rightarrow> string \<Rightarrow> 'v iface \<Rightarrow> bool" where
  "key_holds req key v = (case Data req of None \<Rightarrow> False | Some m \<Rightarrow> m key = Some v)"

subsection \<open>Concrete requests\<close>

text \<open>
  Requests with numbers as the only other dynamic type, no storage type to speak of, and
  a lease name standing for the secret.
\<close>

type_synonym example_request = "(int, unit, string) Request"

text \<open>The zero value \<^verbatim>\<open>Request{}\<close>.\<close>

definition zero_request :: example_request where
  "zero_request = \<lparr>Operation = '''', Path = '''', Data = None, Storage = None, Secret = None\<rparr>"

definition example_data :: "string \<rightharpoonup> int iface" where
  "example_data =
     [''ttl'' \<mapsto> StringValue ''1h'', ''count'' \<mapsto> OtherValue 3,
      ''note'' \<mapsto> StringValue '''']"

definition read_request :: example_request where
  "read_request =
     \<lparr>Operation = ReadOperation, Path = ''creds/role1'', Data = Some example_data,
      Storage = None, Secret = None\<rparr>"

text \<open>A renewal built with a lease, and one built with a nil secret.\<close>

definition renew_with_lease :: "example_request ptr" where
  "renew_with_lease = RenewRequest ''aws/creds/role1'' (Some ''lease-1'') (Some example_data)"

definition renew_without_secret :: "example_request ptr" where
  "renew_without_secret = RenewRequest ''aws/creds/role1'' None (Some example_data)"

text \<open>A request whose Operation is a string that the const block does not declare.\<close>

definition bogus_request :: example_request where
  "bogus_request =
     \<lparr>Operation = ''bogus'', Path = ''creds/role1'', Data = Some example_data,
      Storage = None, Secret = None\<rparr>"

section \<open>Properties\<close>

lemmas operation_defs =
  ReadOperation_def WriteOperation_def DeleteOperation_def ListOperation_def
  HelpOperation_def RevokeOperation_def RenewOperation_def RollbackOperation_def

subsection \<open>The enumeration\<close>

text \<open>
  C2, as stated: the enumeration has exactly nine variants with pairwise distinct
  string values, and no string outside them is a valid Operation. The const block
  declares eight, so neither the number of declarations nor the number of distinct
  values is nine. And the type is open: a Request whose Operation is the undeclared
  string "bogus" is a Request like any other, whose Operation field reads back as that
  string and on which \<^verbatim>\<open>Get\<close> and \<^verbatim>\<open>GetString\<close> return normally.
\<close>

theorem operations_nine_closed_counterexample:
  "\<not> (length operations = 9) \<and> \<not> (card (set operations) = 9)
   \<and> Operation bogus_request \<notin> set operations
   \<and> field Operation (Some bogus_request) = Inr ''bogus''
   \<and> Get (Some bogus_request) ''ttl'' = Inr (StringValue ''1h'', bogus_request)
   \<and> GetString (Some bogus_request) ''ttl'' = Inr (''1h'', bogus_request)"
proof -
  have d: "distinct operations"
    by (simp add: operations_def operation_defs)
  have l: "length operations = 8"
    by (simp add: operations_def)
  from d l have c: "card (set operations) = 8"
    by (simp add: distinct_card)
  have o: "Operation bogus_request \<notin> set operations"
    by (simp add: bogus_request_def operations_def operation_defs)
  have f: "field Operation (Some bogus_request) = Inr ''bogus''"
    by (simp add: bogus_request_def field_def)
  have m: "map_index example_data ''ttl'' = StringValue ''1h''"
    by (simp add: map_index_def example_data_def)
  have "Data bogus_request = Some example_data"
    by (simp add: bogus_request_def)
  with m have g: "Get (Some bogus_request) ''ttl'' = Inr (StringValue ''1h'', bogus_request)"
    by (simp add: Get_def)
  then have s: "GetString (Some bogus_request) ''ttl'' = Inr (''1h'', bogus_request)"
    by (simp add: GetString_def)
  from l c o f g s show ?thesis by simp
qed

text \<open>
  C2, amended: the enumeration consists of exactly eight defined variants, read, write,
  delete, list, help, revoke, renew and rollback, whose string values are pairwise
  distinct. Operation is a string type and nothing here checks it against them: a
  Request carries any string \<open>op\<close> as its Operation, the field reads back as \<open>op\<close>, and
  \<^verbatim>\<open>Get\<close> and \<^verbatim>\<open>GetString\<close> return on it what they return on the same Request with
  any other Operation, leaving the Operation in place.
\<close>

theorem operations_eight_open:
  "length operations = 8
   \<and> distinct operations
   \<and> set operations =
       {''read'', ''write'', ''delete'', ''list'', ''help'', ''revoke'', ''renew'', ''rollback''}
   \<and> field Operation (Some (r\<lparr>Operation := op\<rparr>)) = Inr op
   \<and> (\<exists>v. Get (Some (r\<lparr>Operation := op\<rparr>)) key = Inr (v, r\<lparr>Operation := op\<rparr>)
          \<and> returned (Get (Some r) key) = Inr v)
   \<and> (\<exists>s. GetString (Some (r\<lparr>Operation := op\<rparr>)) key = Inr (s, r\<lparr>Operation := op\<rparr>)
          \<and> returned (GetString (Some r) key) = Inr s)"
proof -
  have e: "length operations = 8 \<and> distinct operations
     \<and> set operations =
         {''read'', ''write'', ''delete'', ''list'', ''help'', ''revoke'', ''renew'', ''rollback''}"
    by (simp add: operations_def operation_defs)
  have f: "field Operation (Some (r\<lparr>Operation := op\<rparr>)) = Inr op"
    by (simp add: field_def)
  obtain v where g: "Get (Some r) key = Inr (v, r)"
    by (cases "Data r") (simp_all add: Get_def)
  then have g': "Get (Some (r\<lparr>Operation := op\<rparr>)) key = Inr (v, r\<lparr>Operation := op\<rparr>)"
    by (cases "Data r") (auto simp add: Get_def)
  obtain s b where a: "assert_string v = (s, b)"
    by (cases "assert_string v")
  from g a have gs: "GetString (Some r) key = Inr (s, r)"
    by (simp add: GetString_def)
  from g' a
  have gs': "GetString (Some (r\<lparr>Operation := op\<rparr>)) key = Inr (s, r\<lparr>Operation := op\<rparr>)"
    by (simp add: GetString_def)
  from g have rg: "returned (Get (Some r) key) = Inr v"
    by (simp add: returned_def)
  from gs have rs: "returned (GetString (Some r) key) = Inr s"
    by (simp add: returned_def)
  from g' rg have 1: "\<exists>v. Get (Some (r\<lparr>Operation := op\<rparr>)) key = Inr (v, r\<lparr>Operation := op\<rparr>)
      \<and> returned (Get (Some r) key) = Inr v"
    by (intro exI conjI)
  from gs' rs have 2: "\<exists>s. GetString (Some (r\<lparr>Operation := op\<rparr>)) key = Inr (s, r\<lparr>Operation := op\<rparr>)
      \<and> returned (GetString (Some r) key) = Inr s"
    by (intro exI conjI)
  from e f 1 2 show ?thesis by (intro conjI) (elim conjE, assumption)+
qed

subsection \<open>The constructors\<close>

text \<open>
  C3. For every path, secret and data mapping, \<^verbatim>\<open>RenewRequest(p, s, d)\<close> returns a
  Request whose Operation is renew (the string "renew"), whose Path is \<open>p\<close>, whose
  Secret is \<open>s\<close>, whose Data is \<open>d\<close> and whose Storage is unset.
\<close>

theorem RenewRequest_fields:
  "field Operation (RenewRequest p s d) = Inr ''renew''
   \<and> field Operation (RenewRequest p s d) = Inr RenewOperation
   \<and> field Path (RenewRequest p s d) = Inr p
   \<and> field Secret (RenewRequest p s d) = Inr s
   \<and> field Data (RenewRequest p s d) = Inr d
   \<and> field Storage (RenewRequest p s d) = Inr None"
  by (simp add: RenewRequest_def field_def RenewOperation_def)

text \<open>
  C4. For every path, secret and data mapping, \<^verbatim>\<open>RevokeRequest(p, s, d)\<close> returns a
  Request whose Operation is revoke (the string "revoke"), whose Path is \<open>p\<close>, whose
  Secret is \<open>s\<close>, whose Data is \<open>d\<close> and whose Storage is unset: it is the Request
  that \<^verbatim>\<open>RenewRequest(p, s, d)\<close> returns with the Operation replaced by revoke.
\<close>

theorem RevokeRequest_fields:
  "field Operation (RevokeRequest p s d) = Inr ''revoke''
   \<and> field Operation (RevokeRequest p s d) = Inr RevokeOperation
   \<and> field Path (RevokeRequest p s d) = Inr p
   \<and> field Secret (RevokeRequest p s d) = Inr s
   \<and> field Data (RevokeRequest p s d) = Inr d
   \<and> field Storage (RevokeRequest p s d) = Inr None
   \<and> (RevokeRequest p s d :: ('v, 'sto, 'sec) Request ptr) =
       map_option (\<lambda>req. req\<lparr>Operation := RevokeOperation\<rparr>) (RenewRequest p s d)"
  by (simp add: RevokeRequest_def RenewRequest_def field_def RevokeOperation_def)

text \<open>
  C5. For every path, \<^verbatim>\<open>RollbackRequest(p)\<close> returns a Request whose Operation is
  rollback (the string "rollback"), whose Path is \<open>p\<close>, and whose Secret and Data are
  both nil.
\<close>

theorem RollbackRequest_fields:
  "field Operation (RollbackRequest p) = Inr ''rollback''
   \<and> field Operation (RollbackRequest p) = Inr RollbackOperation
   \<and> field Path (RollbackRequest p) = Inr p
   \<and> field Secret (RollbackRequest p) = Inr None
   \<and> field Data (RollbackRequest p) = Inr None"
  by (simp add: RollbackRequest_def field_def RollbackOperation_def)

text \<open>
  C8. The three constructors are total and never fail: for every input each returns a
  non-nil pointer to a Request whose Operation is one of the defined variants and whose
  other fields are the arguments as given; nothing is validated, so a nil secret and a
  nil data mapping are stored as they are.
\<close>

theorem constructors_total:
  "(\<exists>req. RenewRequest p s d = Some req \<and> Operation req \<in> set operations
          \<and> Path req = p \<and> Data req = d \<and> Secret req = s)
   \<and> (\<exists>req. RevokeRequest p s d = Some req \<and> Operation req \<in> set operations
          \<and> Path req = p \<and> Data req = d \<and> Secret req = s)
   \<and> (\<exists>req. RollbackRequest p = Some req \<and> Operation req \<in> set operations \<and> Path req = p)
   \<and> (\<exists>req. RenewRequest p None None = Some req \<and> Operation req = RenewOperation
          \<and> Path req = p \<and> Data req = None \<and> Secret req = None)
   \<and> (\<exists>req. RevokeRequest p None None = Some req \<and> Operation req = RevokeOperation
          \<and> Path req = p \<and> Data req = None \<and> Secret req = None)"
  by (simp add: RenewRequest_def RevokeRequest_def RollbackRequest_def operations_def)

text \<open>
  C1, as stated: every Request built by a constructor has a non-nil Secret if and only
  if its Operation is renew or revoke. \<^verbatim>\<open>RenewRequest\<close> called with a nil secret builds
  a Request whose Operation is renew and whose Secret is nil.
\<close>

theorem renew_without_secret_counterexample:
  "built renew_without_secret
   \<and> \<not> (has_secret renew_without_secret \<longleftrightarrow> renew_or_revoke renew_without_secret)"
proof -
  have b: "built renew_without_secret"
    unfolding renew_without_secret_def by (rule built_renew)
  have s: "\<not> has_secret renew_without_secret"
    by (simp add: renew_without_secret_def RenewRequest_def has_secret_def)
  have o: "renew_or_revoke renew_without_secret"
    by (simp add: renew_without_secret_def RenewRequest_def renew_or_revoke_def field_def)
  from b s o show ?thesis by simp
qed

text \<open>
  C1, amended: for every Request built by a constructor, a non-nil Secret implies that
  the Operation is renew or revoke, and the two are equivalent whenever the constructor
  was not handed a nil secret; \<^verbatim>\<open>RollbackRequest\<close> always leaves Secret nil, and
  \<^verbatim>\<open>RenewRequest\<close> and \<^verbatim>\<open>RevokeRequest\<close> store exactly the secret they were given.
\<close>

theorem secret_only_for_renew_revoke:
  "(built r \<longrightarrow> has_secret r \<longrightarrow> renew_or_revoke r)
   \<and> (built_with_secret r \<longrightarrow> (has_secret r \<longleftrightarrow> renew_or_revoke r))
   \<and> field Secret (RollbackRequest p) = Inr None
   \<and> field Secret (RenewRequest p s d) = Inr s
   \<and> field Secret (RevokeRequest p s d) = Inr s"
proof -
  have a: "has_secret r \<longrightarrow> renew_or_revoke r" if "built r"
    using that
    by cases
      (simp_all add: RenewRequest_def RevokeRequest_def RollbackRequest_def
        has_secret_def renew_or_revoke_def field_def)
  have b: "has_secret r \<longleftrightarrow> renew_or_revoke r" if "built_with_secret r"
    using that
    by cases
      (simp_all add: RenewRequest_def RevokeRequest_def RollbackRequest_def
        has_secret_def renew_or_revoke_def field_def operation_defs)
  have c: "field Secret (RollbackRequest p) = Inr None"
    by (simp add: RollbackRequest_def field_def)
  have d: "field Secret (RenewRequest p s d) = Inr s"
    by (simp add: RenewRequest_def field_def)
  have e: "field Secret (RevokeRequest p s d) = Inr s"
    by (simp add: RevokeRequest_def field_def)
  from a b c d e show ?thesis by blast
qed

theorem secret_only_for_renew_revoke_witness:
  "built renew_with_lease \<and> built_with_secret renew_with_lease
   \<and> has_secret renew_with_lease \<and> renew_or_revoke renew_with_lease"
proof -
  have b: "built renew_with_lease"
    unfolding renew_with_lease_def by (rule built_renew)
  have w: "built_with_secret renew_with_lease"
    unfolding renew_with_lease_def by (rule renew_with_secret)
  have h: "has_secret renew_with_lease"
    by (simp add: renew_with_lease_def RenewRequest_def has_secret_def)
  from secret_only_for_renew_revoke [of renew_with_lease] b w h show ?thesis
    by blast
qed

subsection \<open>The accessors\<close>

text \<open>
  C6. On a Request whose Data is nil, \<^verbatim>\<open>Get\<close> returns the nil interface and
  \<^verbatim>\<open>GetString\<close> the empty string, for every key and without a panic; \<^verbatim>\<open>Get\<close> also
  returns the nil interface for a key that has no entry in a non-nil Data.
\<close>

theorem accessors_on_missing:
  "(Data r = None \<longrightarrow>
      Get (Some r) key = Inr (NilValue, r) \<and> GetString (Some r) key = Inr ('''', r))
   \<and> (Data r' = Some m \<and> m key' = None \<longrightarrow> Get (Some r') key' = Inr (NilValue, r'))"
  by (simp add: Get_def GetString_def map_index_def)

theorem accessors_on_missing_witness:
  "Data zero_request = None
   \<and> Get (Some zero_request) ''missing'' = Inr (NilValue, zero_request)
   \<and> GetString (Some zero_request) ''missing'' = Inr ('''', zero_request)
   \<and> Data read_request = Some example_data \<and> example_data ''missing'' = None
   \<and> Get (Some read_request) ''missing'' = Inr (NilValue, read_request)"
proof -
  have z: "Data zero_request = None"
    by (simp add: zero_request_def)
  have d: "Data read_request = Some example_data"
    by (simp add: read_request_def)
  have k: "example_data ''missing'' = None"
    by (simp add: example_data_def)
  from accessors_on_missing [of zero_request "''missing''" read_request example_data "''missing''"]
    z d k
  show ?thesis by simp
qed

text \<open>
  C7. On a Request with a non-nil Data, \<^verbatim>\<open>GetString\<close> returns exactly the stored text
  when the key's value has the dynamic type string, and the empty string, without
  failing, when the value has another dynamic type or is the nil interface.
\<close>

theorem GetString_by_type:
  "Data r = Some m \<Longrightarrow>
     (m key = Some (StringValue t) \<longrightarrow> GetString (Some r) key = Inr (t, r))
     \<and> (m key = Some (OtherValue v) \<longrightarrow> GetString (Some r) key = Inr ('''', r))
     \<and> (m key = Some NilValue \<longrightarrow> GetString (Some r) key = Inr ('''', r))"
  by (simp add: Get_def GetString_def map_index_def)

theorem GetString_by_type_witness:
  "Data read_request = Some example_data
   \<and> example_data ''ttl'' = Some (StringValue ''1h'')
   \<and> GetString (Some read_request) ''ttl'' = Inr (''1h'', read_request)
   \<and> example_data ''count'' = Some (OtherValue 3)
   \<and> GetString (Some read_request) ''count'' = Inr ('''', read_request)"
proof -
  have d: "Data read_request = Some example_data"
    by (simp add: read_request_def)
  have t: "example_data ''ttl'' = Some (StringValue ''1h'')"
    by (simp add: example_data_def)
  have c: "example_data ''count'' = Some (OtherValue 3)"
    by (simp add: example_data_def)
  from GetString_by_type [OF d, of "''ttl''" "''1h''"] t
  have 1: "GetString (Some read_request) ''ttl'' = Inr (''1h'', read_request)"
    by simp
  from GetString_by_type [OF d, of "''count''" _ 3] c
  have 2: "GetString (Some read_request) ''count'' = Inr ('''', read_request)"
    by simp
  from d t c 1 2 show ?thesis by simp
qed

text \<open>
  C9. \<^verbatim>\<open>Get\<close> and \<^verbatim>\<open>GetString\<close> have no side effect: for every Request and key the
  call returns and the struct behind the receiver is afterwards the one it was before,
  in every field; a second call on it with the same key returns what the first returned
  and leaves the struct unchanged again.
\<close>

theorem accessors_pure:
  "(\<exists>v. Get (Some r) key = Inr (v, r) \<and> twice Get (Some r) key = Inr ((v, v), r))
   \<and> (\<exists>s. GetString (Some r) key = Inr (s, r)
          \<and> twice GetString (Some r) key = Inr ((s, s), r))"
proof -
  obtain v where g: "Get (Some r) key = Inr (v, r)"
    by (cases "Data r") (simp_all add: Get_def)
  obtain s b where a: "assert_string v = (s, b)"
    by (cases "assert_string v")
  from g a have gs: "GetString (Some r) key = Inr (s, r)"
    by (simp add: GetString_def)
  from g have "twice Get (Some r) key = Inr ((v, v), r)"
    by (simp add: twice_def)
  moreover from gs have "twice GetString (Some r) key = Inr ((s, s), r)"
    by (simp add: twice_def)
  ultimately show ?thesis using g gs by blast
qed

text \<open>
  C10. \<^verbatim>\<open>GetString\<close> returns the empty string alike for a key that is absent from Data
  (Data nil, or no entry for the key), for a key whose value is not a string, and for a
  key whose value is the empty string: the three returned values are equal, so the
  result alone does not tell the three situations apart.
\<close>

theorem GetString_conflates:
  "key_absent r1 k1 \<Longrightarrow> key_holds r2 k2 (OtherValue x) \<Longrightarrow>
   key_holds r3 k3 (StringValue '''') \<Longrightarrow>
     returned (GetString (Some r1) k1) = Inr ''''
     \<and> returned (GetString (Some r2) k2) = Inr ''''
     \<and> returned (GetString (Some r3) k3) = Inr ''''
     \<and> returned (GetString (Some r1) k1) = returned (GetString (Some r2) k2)
     \<and> returned (GetString (Some r2) k2) = returned (GetString (Some r3) k3)"
  by (auto simp add: key_absent_def key_holds_def returned_def Get_def GetString_def
      map_index_def split: option.splits)

theorem GetString_conflates_witness:
  "key_absent read_request ''missing'' \<and> key_absent zero_request ''note''
   \<and> key_holds read_request ''count'' (OtherValue 3)
   \<and> key_holds read_request ''note'' (StringValue '''')
   \<and> returned (GetString (Some read_request) ''missing'') = Inr ''''
   \<and> returned (GetString (Some zero_request) ''note'') = Inr ''''
   \<and> returned (GetString (Some read_request) ''count'') = Inr ''''
   \<and> returned (GetString (Some read_request) ''note'') = Inr ''''"
proof -
  have a: "key_absent read_request ''missing''"
    by (simp add: key_absent_def read_request_def example_data_def)
  have z: "key_absent zero_request ''note''"
    by (simp add: key_absent_def zero_request_def)
  have n: "key_holds read_request ''count'' (OtherValue 3)"
    by (simp add: key_holds_def read_request_def example_data_def)
  have e: "key_holds read_request ''note'' (StringValue '''')"
    by (simp add: key_holds_def read_request_def example_data_def)
  from GetString_conflates [OF a n e] GetString_conflates [OF z n e] a z n e
  show ?thesis by simp
qed

end
